theory Spec2Isabelle
  imports Main "HOL-Library.AList" "HOL-Library.Word"
begin

unbundle bit_operations_syntax

section \<open>yep-generate: scanning the module packages\<close>

text \<open>
  The generator (\<^verbatim>\<open>cmd/yep-generate/main.go\<close>) receives the module packages found by
  \<^verbatim>\<open>generate.GetModulePackages\<close> as a slice of pointers to \<^verbatim>\<open>generate.ModuleInfo\<close>.
  Of a module info the two functions verified here read three things: its \<^verbatim>\<open>Errors\<close>
  (a slice of Go \<^verbatim>\<open>error\<close> values), its \<^verbatim>\<open>ModType\<close> and the result of its
  \<^verbatim>\<open>String()\<close> method. The declaration of the type belongs to another package, so the
  record below holds exactly these three, the type of \<^verbatim>\<open>ModType\<close> is left open
  (a type variable) and the constant \<^verbatim>\<open>generate.DEFS\<close> is a parameter.
\<close>

datatype panic = NilDereference | IndexOutOfRange

text \<open>
  The scanner of package \<^verbatim>\<open>fmt\<close> reads a string rune by rune. A string that is scanned
  is therefore the sequence of the runes that its UTF-8 decoding yields, each rune its
  code point; \<open>runes\<close> writes such a string from an ASCII literal.
\<close>

type_synonym rune = nat

type_synonym go_string = "rune list"

definition runes :: "string \<Rightarrow> go_string" where
  "runes s = map of_char s"

text \<open>
  \<^verbatim>\<open>types.Error\<close> of \<^verbatim>\<open>go/types\<close>: the message and the soft flag (the position is not
  read by the generator).
\<close>

record types_Error =
  Msg :: go_string
  Soft :: bool

text \<open>
  A Go \<^verbatim>\<open>error\<close> value, as the type assertion \<^verbatim>\<open>err.(types.Error)\<close> sees it: a
  \<^verbatim>\<open>types.Error\<close>, a value of any other dynamic type (with its text), or the nil interface.
\<close>

datatype go_error = TypesError types_Error | OtherError string | NilError

record 't ModuleInfo =
  Errors :: "go_error list"
  ModType :: 't
  String :: string

text \<open>
  A pointer \<^verbatim>\<open>*generate.ModuleInfo\<close> is \<open>None\<close> when nil; reading a field through a nil
  pointer panics.
\<close>

type_synonym 't ModuleInfo_ptr = "'t ModuleInfo option"

subsection \<open>\<^verbatim>\<open>fmt.Sscanf\<close>\<close>

text \<open>
  \<^verbatim>\<open>fmt.Sscanf(str, format, &identName)\<close> belongs to the Go standard library
  (\<^verbatim>\<open>fmt/scan.go\<close>), not to the repository. The model follows the library for one string
  operand and a format made of the verb \<^verbatim>\<open>%s\<close>, spaces other than newline and ordinary
  runes, which is what the format of line 92 is made of; on any other format it answers
  \<open>NotModelled\<close>. The input is taken to be shorter than the limit of the scanner
  (\<open>2 ^ 30\<close> runes).

  The table \<^verbatim>\<open>space\<close> of the library (the ranges of \<^verbatim>\<open>unicode.White_Space\<close>) and
  \<^verbatim>\<open>isSpace\<close>.
\<close>

definition space :: "(rune \<times> rune) list" where
  "space =
     [(0x0009, 0x000d), (0x0020, 0x0020), (0x0085, 0x0085), (0x00a0, 0x00a0),
      (0x1680, 0x1680), (0x2000, 0x200a), (0x2028, 0x2029), (0x202f, 0x202f),
      (0x205f, 0x205f), (0x3000, 0x3000)]"

definition isSpace :: "rune \<Rightarrow> bool" where
  "isSpace r = list_ex (\<lambda>(lo, hi). lo \<le> r \<and> r \<le> hi) space"

definition notSpace :: "rune \<Rightarrow> bool" where
  "notSpace r = (\<not> isSpace r)"

text \<open>
  The errors of a scan: \<^verbatim>\<open>io.EOF\<close>, \<^verbatim>\<open>io.ErrUnexpectedEOF\<close> and the error strings of the
  scanner. The generator only tests the error against nil.
\<close>

datatype scan_error =
  EOF | UnexpectedEOF | UnexpectedNewline | ExpectedSpace | NewlineInInput |
  InputDoesNotMatch | TooFewOperands | TooManyOperands | NotModelled

text \<open>
  \<^verbatim>\<open>SkipSpace\<close>, as \<^verbatim>\<open>Sscanf\<close> sets it up (a newline is not a space): it skips spaces and
  stops in front of the first rune that is not one; a newline is an error. The result
  is the rest of the input.
\<close>

fun SkipSpace :: "go_string \<Rightarrow> scan_error + go_string" where
  "SkipSpace [] = Inr []"
| "SkipSpace (r # rs) =
     (if r = 0x0d \<and> take 1 rs = [0x0a] then SkipSpace rs
      else if r = 0x0a then Inl UnexpectedNewline
      else if \<not> isSpace r then Inr (r # rs)
      else SkipSpace rs)"

text \<open>
  \<^verbatim>\<open>doScanf\<close> with \<^verbatim>\<open>advance\<close>, over the rest of the format and the rest of the input.
  \<^item> A run of spaces in the format needs a space in the input or its end, and takes all
    the spaces up to a newline.
  \<^item> The verb \<^verbatim>\<open>%s\<close> skips spaces, wants an operand that is still free and an input that
    is not at its end, and stores the runes up to the next space (\<^verbatim>\<open>convertString\<close> and
    \<^verbatim>\<open>token\<close> skip spaces again, where none is left).
  \<^item> Any other rune of the format must be the next rune of the input.
  \<^item> At the end of the format an operand that was not filled is an error; input that is
    left over is not.
  The result is the number of operands filled, the error and the operand.
\<close>

function doScanf ::
  "go_string \<Rightarrow> go_string \<Rightarrow> nat \<Rightarrow> go_string \<Rightarrow> nat \<times> scan_error option \<times> go_string" where
  "doScanf [] input numProcessed identName =
     (if numProcessed < 1 then (numProcessed, Some TooManyOperands, identName)
      else (numProcessed, None, identName))"
| "doScanf (fmtc # format) input numProcessed identName =
     (if isSpace fmtc then
        (if 0x0a \<in> set (fmtc # takeWhile isSpace format)
         then (numProcessed, Some NotModelled, identName)
         else
           (case input of
              [] \<Rightarrow> doScanf (dropWhile isSpace format) [] numProcessed identName
            | inputc # rest \<Rightarrow>
                if \<not> isSpace inputc then (numProcessed, Some ExpectedSpace, identName)
                else if inputc = 0x0a then (numProcessed, Some NewlineInInput, identName)
                else doScanf (dropWhile isSpace format)
                       (dropWhile (\<lambda>r. isSpace r \<and> r \<noteq> 0x0a) rest) numProcessed identName))
      else if fmtc = 0x25 then
        (case format of
           [] \<Rightarrow> (numProcessed, Some NotModelled, identName)
         | c # format' \<Rightarrow>
             if c \<noteq> 0x73 then (numProcessed, Some NotModelled, identName)
             else
               (case SkipSpace input of
                  Inl e \<Rightarrow> (numProcessed, Some e, identName)
                | Inr input' \<Rightarrow>
                    if numProcessed \<ge> 1 then (numProcessed, Some TooFewOperands, identName)
                    else if input' = [] then (numProcessed, Some EOF, identName)
                    else doScanf format' (dropWhile notSpace input') (Suc numProcessed)
                           (takeWhile notSpace input')))
      else
        (case input of
           [] \<Rightarrow> (numProcessed, Some UnexpectedEOF, identName)
         | inputc # rest \<Rightarrow>
             if fmtc \<noteq> inputc then (numProcessed, Some InputDoesNotMatch, identName)
             else doScanf format rest numProcessed identName))"
  by pat_completeness auto
termination
  by (relation "measure (\<lambda>(format, input, numProcessed, identName). length format)")
     (auto simp: length_dropWhile_le less_Suc_eq_le)

text \<open>The call of line 92: \<^verbatim>\<open>identName\<close> is the empty string before it.\<close>

definition Sscanf :: "go_string \<Rightarrow> go_string \<Rightarrow> nat \<times> scan_error option \<times> go_string" where
  "Sscanf str format = doScanf format str 0 []"

definition not_declared_format :: go_string where
  "not_declared_format = runes ''%s not declared by package pool''"

text \<open>The formats that the model covers.\<close>

fun modelled_format :: "go_string \<Rightarrow> bool" where
  "modelled_format [] = True"
| "modelled_format [c] = (c \<noteq> 0x25 \<and> c \<noteq> 0x0a)"
| "modelled_format (c # d # format) =
     (if c = 0x25 then d = 0x73 \<and> modelled_format format
      else c \<noteq> 0x0a \<and> modelled_format (d # format))"

subsection \<open>The form of a message\<close>

text \<open>
  Read to the letter, a message has the form \<^verbatim>\<open><identifier> not declared by package pool\<close>
  when it is the identifier followed by this text.
\<close>

definition literally_not_declared_by_pool :: "go_string \<Rightarrow> go_string \<Rightarrow> bool" where
  "literally_not_declared_by_pool msg ident =
     (msg = ident @ runes '' not declared by package pool'')"

text \<open>
  A blank is a space other than newline, a gap a run of one blank or more. A message
  says \<open>ident\<close> is not declared by package pool when it is made of: blanks (or none); the
  identifier, a word of one rune or more without a space; and the words \<^verbatim>\<open>not\<close>,
  \<^verbatim>\<open>declared\<close>, \<^verbatim>\<open>by\<close>, \<^verbatim>\<open>package\<close>, \<^verbatim>\<open>pool\<close>, a gap before each; then anything.
\<close>

definition blank :: "rune \<Rightarrow> bool" where
  "blank r = (isSpace r \<and> r \<noteq> 0x0a)"

definition gap :: "go_string \<Rightarrow> bool" where
  "gap g = (g \<noteq> [] \<and> list_all blank g)"

definition not_declared_by_pool :: "go_string \<Rightarrow> go_string \<Rightarrow> bool" where
  "not_declared_by_pool msg ident =
     (\<exists>lead g1 g2 g3 g4 g5 rest.
        msg = lead @ ident @ g1 @ runes ''not'' @ g2 @ runes ''declared'' @ g3 @ runes ''by'' @
              g4 @ runes ''package'' @ g5 @ runes ''pool'' @ rest \<and>
        list_all blank lead \<and> ident \<noteq> [] \<and> list_all notSpace ident \<and>
        gap g1 \<and> gap g2 \<and> gap g3 \<and> gap g4 \<and> gap g5)"


subsection \<open>\<^verbatim>\<open>getMissingDeclarations\<close>\<close>

text \<open>
  The map \<^verbatim>\<open>missing\<close> of type \<^verbatim>\<open>map[string]bool\<close> is an association list with distinct
  keys; \<^verbatim>\<open>missing[identName] = true\<close> is \<open>AList.update\<close>, which overwrites the value of a
  key that is present and adds a key that is not.

  The inner loop of lines 86 to 97, over the errors of one package.
\<close>

fun scan_errors :: "go_error list \<Rightarrow> (go_string \<times> bool) list \<Rightarrow> (go_string \<times> bool) list" where
  "scan_errors [] missing = missing"
| "scan_errors (err # errs) missing =
     (case err of
        TypesError typeErr \<Rightarrow>
          (case Sscanf (Msg typeErr) not_declared_format of
             (n, e, identName) \<Rightarrow>
               if n = 0 \<or> e \<noteq> None then scan_errors errs missing
               else scan_errors errs (AList.update identName True missing))
      | OtherError _ \<Rightarrow> scan_errors errs missing
      | NilError \<Rightarrow> scan_errors errs missing)"

text \<open>The outer loop of lines 85 to 98, over the packages.\<close>

fun scan_packages ::
  "'t ModuleInfo_ptr list \<Rightarrow> (go_string \<times> bool) list \<Rightarrow> panic + (go_string \<times> bool) list" where
  "scan_packages [] missing = Inr missing"
| "scan_packages (pack # packs) missing =
     (case pack of
        None \<Rightarrow> Inl NilDereference
      | Some p \<Rightarrow> scan_packages packs (scan_errors (Errors p) missing))"




subsection \<open>\<^verbatim>\<open>filterDefsModules\<close>\<close>

text \<open>
  The loop of lines 123 to 127, with the slice \<^verbatim>\<open>modulesList\<close> as an accumulator (nil, the
  empty list, at first); \<^verbatim>\<open>append\<close> adds at the end.
\<close>

fun filterDefsModules_loop :: "'t \<Rightarrow> 't ModuleInfo_ptr list \<Rightarrow> string list \<Rightarrow> panic + string list" where
  "filterDefsModules_loop DEFS [] modulesList = Inr modulesList"
| "filterDefsModules_loop DEFS (modInfo # modules) modulesList =
     (case modInfo of
        None \<Rightarrow> Inl NilDereference
      | Some mi \<Rightarrow>
          if ModType mi = DEFS
          then filterDefsModules_loop DEFS modules (modulesList @ [String mi])
          else filterDefsModules_loop DEFS modules modulesList)"

definition filterDefsModules :: "'t \<Rightarrow> 't ModuleInfo_ptr list \<Rightarrow> panic + string list" where
  "filterDefsModules DEFS modules = filterDefsModules_loop DEFS modules []"

subsection \<open>Sample runs\<close>

text \<open>
  Two module packages. The first reports a missing declaration, an error that is not a
  \<^verbatim>\<open>types.Error\<close> and a \<^verbatim>\<open>types.Error\<close> with another message; the second reports the
  same missing declaration again, with blanks in front and more than one blank between
  the words, and a second one.
\<close>

definition sample_packages :: "nat ModuleInfo list" where
  "sample_packages =
     [\<lparr>Errors =
         [TypesError \<lparr>Msg = runes ''ResPartner not declared by package pool'', Soft = False\<rparr>,
          OtherError ''expected declaration'',
          TypesError \<lparr>Msg = runes ''undefined: foo'', Soft = False\<rparr>],
       ModType = 1, String = ''github.com/npiganeau/yep/addons/base''\<rparr>,
      \<lparr>Errors =
         [TypesError \<lparr>Msg = runes ''  ResPartner  not declared by package pool'', Soft = False\<rparr>,
          TypesError \<lparr>Msg = runes ''SaleOrder not declared by package pool'', Soft = False\<rparr>],
       ModType = 0, String = ''github.com/npiganeau/yep/addons/sale''\<rparr>]"


section \<open>Record rules\<close>

text \<open>
  The security documentation of the repository declares the permissions and the record
  rules of the \<^verbatim>\<open>security\<close> and \<^verbatim>\<open>models\<close> packages. A permission is a bit set in a
  \<^verbatim>\<open>uint8\<close>; the constants are \<^verbatim>\<open>1 << iota\<close> for \<^verbatim>\<open>iota\<close> from 0 to 3, and \<^verbatim>\<open>All\<close> is
  their union.
\<close>

type_synonym Permission = "8 word"

definition Create :: Permission where
  "Create = push_bit 0 1"

definition Read :: Permission where
  "Read = push_bit 1 1"

definition Write :: Permission where
  "Write = push_bit 2 1"

definition Unlink :: Permission where
  "Unlink = push_bit 3 1"

definition All_Permission :: Permission where
  "All_Permission = Create OR Read OR Write OR Unlink"

text \<open>
  The struct \<^verbatim>\<open>RecordRule\<close> of the documentation. The group is named by its identifier
  (a type variable). \<^verbatim>\<open>Condition\<close> is the filter of the rule: a predicate on the records
  (the record type is a type variable too, so it can carry the requesting actor).
\<close>

record ('g, 'r) RecordRule =
  Name :: string
  Global :: bool
  Group :: 'g
  Condition :: "'r \<Rightarrow> bool"
  Perms :: Permission

text \<open>
  Modelled from the spec: the Record Rule Registry, whose code (\<^verbatim>\<open>AddRecordRule\<close>,
  \<^verbatim>\<open>RemoveRecordRule\<close> and the evaluation of the rules in the \<^verbatim>\<open>models\<close> package) is not
  among the sources. The registry holds, for each model, an ordered mapping from names to
  rules: an association list with distinct keys, in the order of insertion.
\<close>

type_synonym ('m, 'g, 'r) rule_registry = "'m \<Rightarrow> (string \<times> ('g, 'r) RecordRule) list"

text \<open>
  Modelled from the spec: \<^verbatim>\<open>addRule(model, rule)\<close> inserts or overwrites by the name of the
  rule within the mapping of the model, at the end when the name is new and in place when
  it overwrites (\<^verbatim>\<open>AddRecordRule\<close> of the documentation: if the name of the rule already
  exists, then the rule is overwritten). \<open>AList.update\<close> does exactly this.
\<close>

definition addRule ::
  "'m \<Rightarrow> ('g, 'r) RecordRule \<Rightarrow> ('m, 'g, 'r) rule_registry \<Rightarrow> ('m, 'g, 'r) rule_registry" where
  "addRule model rule registry =
     registry(model := AList.update (Name rule) rule (registry model))"

text \<open>
  Modelled from the spec: \<^verbatim>\<open>removeRule(model, name)\<close> removes the rule of that name from the
  mapping of the model (\<^verbatim>\<open>RemoveRecordRule\<close> of the documentation).
\<close>

definition removeRule ::
  "'m \<Rightarrow> string \<Rightarrow> ('m, 'g, 'r) rule_registry \<Rightarrow> ('m, 'g, 'r) rule_registry" where
  "removeRule model name registry = registry(model := AList.delete name (registry model))"

text \<open>
  Modelled from the spec: the permission mask of a rule includes an operation when every
  bit of the operation is in the mask.
\<close>

definition includes_op :: "Permission \<Rightarrow> Permission \<Rightarrow> bool" where
  "includes_op perms operation = (perms AND operation = operation)"

text \<open>
  Modelled from the spec: \<^verbatim>\<open>combinedPredicate(model, actorGroups, operation)\<close>. \<open>G\<close> holds
  the global rules of the model whose mask includes the operation, \<open>R\<close> the group rules
  whose mask includes the operation and whose group is in the closure of the groups of
  the actor (\<open>effectiveGroups\<close>, of the Group Registry, is a parameter). A record passes
  when \<open>G\<close> is empty or all of its rules hold, and \<open>R\<close> is empty or one of its rules
  holds. Create is never checked against record rules.
\<close>

definition combinedPredicate ::
  "('g set \<Rightarrow> 'g set) \<Rightarrow> ('m, 'g, 'r) rule_registry \<Rightarrow> 'm \<Rightarrow> 'g set \<Rightarrow> Permission \<Rightarrow> 'r \<Rightarrow> bool" where
  "combinedPredicate effectiveGroups registry model actorGroups operation =
     (let rules = map snd (registry model);
          G = filter (\<lambda>x. Global x \<and> includes_op (Perms x) operation) rules;
          R = filter (\<lambda>x. \<not> Global x \<and> includes_op (Perms x) operation \<and>
                Group x \<in> effectiveGroups actorGroups) rules
      in if operation = Create then (\<lambda>r. True)
         else (\<lambda>r. (G = [] \<or> list_all (\<lambda>g. Condition g r) G) \<and>
                   (R = [] \<or> list_ex (\<lambda>x. Condition x r) R)))"

subsection \<open>A sample registry\<close>

text \<open>
  Records are partners, given by the identifier of the user who owns them. The model
  \<^verbatim>\<open>ResPartner\<close> has one global rule, which lets through the partners of user 7. The rule
  \<open>salesman_own_partner\<close> is the example of the documentation, for the same user.
\<close>

definition own_partner :: "(string, nat) RecordRule" where
  "own_partner =
     \<lparr>Name = ''own_partner'', Global = True, Group = [],
      Condition = (\<lambda>owner. owner = 7), Perms = Read OR Write\<rparr>"

definition everyone_partner :: "(string, nat) RecordRule" where
  "everyone_partner =
     \<lparr>Name = ''own_partner'', Global = True, Group = [],
      Condition = (\<lambda>owner. True), Perms = Read\<rparr>"

definition salesman_own_partner :: "(string, nat) RecordRule" where
  "salesman_own_partner =
     \<lparr>Name = ''salesman_own_partner'', Global = False, Group = ''sale_user'',
      Condition = (\<lambda>owner. owner = 7), Perms = All_Permission\<rparr>"

definition sample_registry :: "(string, string, nat) rule_registry" where
  "sample_registry = (\<lambda>model. [])(''ResPartner'' := [(''own_partner'', own_partner)])"

section \<open>Properties of \<^verbatim>\<open>filterDefsModules\<close>\<close>

lemma filterDefsModules_loop_acc:
  "filterDefsModules_loop DEFS (map Some ms) acc =
     Inr (acc @ map String (filter (\<lambda>m. ModType m = DEFS) ms))"
  by (induction ms arbitrary: acc) simp_all

lemma filterDefsModules_nil:
  "None \<in> set modules \<Longrightarrow> \<exists>p. filterDefsModules_loop DEFS modules acc = Inl p"
  by (induction modules arbitrary: acc) (auto split: option.splits)

text \<open>
  Claim C10. For every list of module infos, \<^verbatim>\<open>filterDefsModules\<close> returns the
  \<^verbatim>\<open>String()\<close> names of exactly the modules whose \<^verbatim>\<open>ModType\<close> is \<^verbatim>\<open>DEFS\<close>, in the order of
  the input; when no module has the type \<^verbatim>\<open>DEFS\<close> the result is the empty list.
\<close>

theorem filterDefsModules_spec:
  "filterDefsModules DEFS (map Some modules) =
     Inr (map String (filter (\<lambda>modInfo. ModType modInfo = DEFS) modules)) \<and>
   ((\<forall>modInfo \<in> set modules. ModType modInfo \<noteq> DEFS) \<longrightarrow>
      filterDefsModules DEFS (map Some modules) = Inr [])"
proof -
  have eq: "filterDefsModules DEFS (map Some modules) =
     Inr (map String (filter (\<lambda>modInfo. ModType modInfo = DEFS) modules))"
    by (simp add: filterDefsModules_def filterDefsModules_loop_acc)
  have "filter (\<lambda>modInfo. ModType modInfo = DEFS) modules = []"
    if "\<forall>modInfo \<in> set modules. ModType modInfo \<noteq> DEFS"
    using that by (simp add: filter_empty_conv)
  with eq show ?thesis by simp
qed

theorem filterDefsModules_spec_witness:
  "filterDefsModules (1::nat) (map Some sample_packages) =
     Inr [''github.com/npiganeau/yep/addons/base''] \<and>
   filterDefsModules (2::nat) (map Some sample_packages) = Inr []"
proof -
  have no2: "\<forall>modInfo \<in> set sample_packages. ModType modInfo \<noteq> (2::nat)"
    by (simp add: sample_packages_def)
  have "filterDefsModules (1::nat) (map Some sample_packages) =
     Inr [''github.com/npiganeau/yep/addons/base'']"
    using filterDefsModules_spec [of 1 sample_packages]
    by (simp add: sample_packages_def)
  moreover have "filterDefsModules (2::nat) (map Some sample_packages) = Inr []"
    using filterDefsModules_spec [of 2 sample_packages] no2 by blast
  ultimately show ?thesis by simp
qed

section \<open>Properties of \<^verbatim>\<open>fmt.Sscanf\<close> on the format of line 92\<close>

lemma isSpace_simps [simp]: "isSpace 0x0a" "isSpace 0x0d" "isSpace 0x20" "\<not> isSpace 0x25"
  by (simp_all add: isSpace_def space_def)

















text \<open>A message of the form read to the letter says so, when the identifier is a word.\<close>

lemma literally_not_declared:
  assumes "literally_not_declared_by_pool msg ident" and "ident \<noteq> []"
    and "list_all notSpace ident"
  shows "not_declared_by_pool msg ident"
proof -
  have "msg = [] @ ident @ [0x20] @ runes ''not'' @ [0x20] @ runes ''declared'' @ [0x20] @
      runes ''by'' @ [0x20] @ runes ''package'' @ [0x20] @ runes ''pool'' @ []"
    using assms(1) by (simp add: literally_not_declared_by_pool_def runes_def)
  moreover have "gap [0x20]" by (simp add: gap_def blank_def)
  ultimately show ?thesis
    unfolding not_declared_by_pool_def using assms(2,3)
    by (intro exI [of _ "[]"] exI [of _ "[0x20]"] conjI) simp_all
qed

text \<open>The format of line 92 is one that the model covers.\<close>

lemma modelled_format_dropWhile:
  "modelled_format format \<Longrightarrow> modelled_format (dropWhile isSpace format)"
  by (induction format rule: modelled_format.induct) (auto split: if_splits)

lemma modelled_format_tl:
  "modelled_format (c # format) \<Longrightarrow> c \<noteq> 0x25 \<Longrightarrow> modelled_format format"
  by (cases format) (auto split: if_splits)

lemma modelled_format_newline:
  "modelled_format format \<Longrightarrow> 0x0a \<notin> set (takeWhile isSpace format)"
  by (induction format rule: modelled_format.induct) (auto split: if_splits)

lemma doScanf_modelled:
  "modelled_format format \<Longrightarrow>
     fst (snd (doScanf format input numProcessed identName)) \<noteq> Some NotModelled"
proof (induction format input numProcessed identName rule: doScanf.induct)
  case (1 input numProcessed identName)
  then show ?case by simp
next
  case (2 fmtc format input numProcessed identName)
  show ?case
  proof (cases "isSpace fmtc")
    case True
    then have p: "fmtc \<noteq> 0x25" by auto
    from "2.prems" p have nl: "fmtc \<noteq> 0x0a" by (cases format) (auto split: if_splits)
    from modelled_format_tl [OF "2.prems" p] have mf: "modelled_format format" .
    have no: "0x0a \<notin> set (fmtc # takeWhile isSpace format)"
      using nl modelled_format_newline [OF mf] by simp
    have md: "modelled_format (dropWhile isSpace format)"
      using mf by (rule modelled_format_dropWhile)
    show ?thesis
    proof (cases input)
      case Nil
      with True no "2.IH"(1) [OF True no Nil md] show ?thesis by simp
    next
      case (Cons inputc rest)
      show ?thesis
      proof (cases "\<not> isSpace inputc \<or> inputc = 0x0a")
        case True
        with \<open>isSpace fmtc\<close> no Cons show ?thesis by auto
      next
        case False
        then have a: "\<not> \<not> isSpace inputc" "inputc \<noteq> 0x0a" by auto
        from "2.IH"(2) [OF True no Cons a md] True no Cons a show ?thesis by simp
      qed
    qed
  next
    case False
    show ?thesis
    proof (cases "fmtc = 0x25")
      case True
      with "2.prems" obtain format' where f: "format = 0x73 # format'"
        and mf: "modelled_format format'"
        by (cases format) (auto split: if_splits)
      show ?thesis
      proof (cases "SkipSpace input")
        case (Inl e)
        have "e \<noteq> NotModelled" using Inl
          by (induction input rule: SkipSpace.induct) (auto split: if_splits)
        with False True f Inl show ?thesis by simp
      next
        case (Inr input')
        show ?thesis
        proof (cases "numProcessed \<ge> 1 \<or> input' = []")
          case True
          with False \<open>fmtc = 0x25\<close> f Inr show ?thesis by auto
        next
          case False
          then have b: "\<not> 1 \<le> numProcessed" "input' \<noteq> []" by auto
          have c: "\<not> (0x73::nat) \<noteq> 0x73" by simp
          from "2.IH"(3) [OF \<open>\<not> isSpace fmtc\<close> True f c Inr b mf]
          show ?thesis using \<open>\<not> isSpace fmtc\<close> True f Inr b by simp
        qed
      qed
    next
      case np: False
      from modelled_format_tl [OF "2.prems" np] have mf: "modelled_format format" .
      show ?thesis
      proof (cases input)
        case Nil
        with False np show ?thesis by simp
      next
        case (Cons inputc rest)
        show ?thesis
        proof (cases "fmtc = inputc")
          case True
          then have d: "\<not> fmtc \<noteq> inputc" by simp
          from "2.IH"(4) [OF False np Cons d mf] False np Cons True show ?thesis by simp
        next
          case False
          with \<open>\<not> isSpace fmtc\<close> np Cons show ?thesis by simp
        qed
      qed
    qed
  qed
qed

lemma not_declared_format_modelled:
  "fst (snd (Sscanf msg not_declared_format)) \<noteq> Some NotModelled"
  unfolding Sscanf_def
  by (rule doScanf_modelled) (simp add: not_declared_format_def runes_def)

section \<open>Properties of \<^verbatim>\<open>getMissingDeclarations\<close>\<close>




lemma scan_packages_nil:
  "None \<in> set packages \<Longrightarrow> scan_packages packages missing = Inl NilDereference"
  by (induction packages arbitrary: missing) (auto split: option.splits)








section \<open>Properties of the record rules\<close>

lemma delete_update_same: "AList.delete k (AList.update k v al) = AList.delete k al"
  by (induction al) auto

lemma removeRule_addRule_same:
  "removeRule model (Name rule) (addRule model rule registry) =
     removeRule model (Name rule) registry"
  by (simp add: removeRule_def addRule_def delete_update_same)

lemma removeRule_absent:
  "name \<notin> fst ` set (registry model) \<Longrightarrow> removeRule model name registry = registry"
  by (simp add: removeRule_def delete_idem)

lemmas Permission_defs =
  Create_def Read_def Write_def Unlink_def All_Permission_def includes_op_def

text \<open>
  Claim C8, as stated, fails where the model already has a rule of the name: the addition
  overwrites that rule and the removal deletes it. Before, the global rule \<open>own_partner\<close>
  keeps the partner of user 3 from a reader; after adding a rule of the same name and
  removing the name, the model has no rule and the partner passes.
\<close>

theorem removeRule_addRule_counterexample:
  "combinedPredicate id
     (removeRule ''ResPartner'' (Name everyone_partner)
        (addRule ''ResPartner'' everyone_partner sample_registry))
     ''ResPartner'' {''sale_user''} Read 3 \<noteq>
   combinedPredicate id sample_registry ''ResPartner'' {''sale_user''} Read 3"
  by (simp add: combinedPredicate_def addRule_def removeRule_def sample_registry_def
      own_partner_def everyone_partner_def Permission_defs)

text \<open>
  Claim C8, amended. When the model has no rule of the name of the new rule, adding the
  rule and then removing its name restores the registry, and with it the combined
  predicate of every model, for every set of groups and every operation. In every state,
  after the addition and the removal the registry, and the combined predicate, are those
  of the state with the name removed: as if no rule of that name had been registered.
  Removing a name that is absent leaves the registry unchanged.
\<close>

theorem removeRule_addRule_restores:
  assumes "Name rule \<notin> fst ` set (registry model)"
    and "name \<notin> fst ` set (registry model)"
  shows "removeRule model (Name rule) (addRule model rule registry) = registry \<and>
     combinedPredicate effectiveGroups
       (removeRule model (Name rule) (addRule model rule registry)) model' actorGroups operation =
     combinedPredicate effectiveGroups registry model' actorGroups operation \<and>
     combinedPredicate effectiveGroups
       (removeRule model (Name rule') (addRule model rule' registry')) model' actorGroups operation =
     combinedPredicate effectiveGroups
       (removeRule model (Name rule') registry') model' actorGroups operation \<and>
     removeRule model name registry = registry"
proof -
  have restored: "removeRule model (Name rule) (addRule model rule registry) = registry"
    using assms(1) by (simp add: removeRule_addRule_same removeRule_absent)
  have noop: "removeRule model name registry = registry"
    using assms(2) by (rule removeRule_absent)
  have as_if: "removeRule model (Name rule') (addRule model rule' registry') =
     removeRule model (Name rule') registry'"
    by (rule removeRule_addRule_same)
  show ?thesis
    unfolding restored as_if noop by simp
qed

theorem removeRule_addRule_restores_witness:
  "Name salesman_own_partner \<notin> fst ` set (sample_registry ''ResPartner'') \<and>
   ''no_such_rule'' \<notin> fst ` set (sample_registry ''ResPartner'') \<and>
   removeRule ''ResPartner'' (Name salesman_own_partner)
     (addRule ''ResPartner'' salesman_own_partner sample_registry) = sample_registry \<and>
   combinedPredicate id
     (removeRule ''ResPartner'' (Name salesman_own_partner)
        (addRule ''ResPartner'' salesman_own_partner sample_registry))
     ''ResPartner'' {''sale_user''} Read 3 =
   combinedPredicate id sample_registry ''ResPartner'' {''sale_user''} Read 3 \<and>
   \<not> combinedPredicate id sample_registry ''ResPartner'' {''sale_user''} Read 3 \<and>
   combinedPredicate id
     (removeRule ''ResPartner'' (Name everyone_partner)
        (addRule ''ResPartner'' everyone_partner sample_registry))
     ''ResPartner'' {''sale_user''} Read 3 =
   combinedPredicate id
     (removeRule ''ResPartner'' (Name everyone_partner) sample_registry)
     ''ResPartner'' {''sale_user''} Read 3 \<and>
   removeRule ''ResPartner'' ''no_such_rule'' sample_registry = sample_registry"
proof -
  have a1: "Name salesman_own_partner \<notin> fst ` set (sample_registry ''ResPartner'')"
    by (simp add: sample_registry_def salesman_own_partner_def)
  have a2: "''no_such_rule'' \<notin> fst ` set (sample_registry ''ResPartner'')"
    by (simp add: sample_registry_def)
  have before: "\<not> combinedPredicate id sample_registry ''ResPartner'' {''sale_user''} Read 3"
    by (simp add: combinedPredicate_def sample_registry_def own_partner_def Permission_defs)
  show ?thesis
    using removeRule_addRule_restores [where rule = salesman_own_partner
        and registry = sample_registry and model = "''ResPartner''" and name = "''no_such_rule''"
        and effectiveGroups = id and model' = "''ResPartner''"
        and actorGroups = "{''sale_user''}" and operation = Read
        and rule' = everyone_partner and registry' = sample_registry, OF a1 a2] a1 a2 before
    by simp
qed

end
